theory Spec2Isabelle
  imports Complex_Main "HOL-Library.Char_ord" "HOL-Library.List_Lexorder"
begin

section \<open>Record store (server/storage.ts)\<close>

text \<open>
  \<open>InsertSalesData\<close> is what a caller hands to the store. \<open>createSalesData\<close> reads
  \<open>maker\<close>, \<open>rto\<close>, \<open>district\<close>, the four year fields and \<open>total\<close> through
  \<open>x || default\<close>, so these may be absent (\<open>None\<close>); \<open>state\<close>, \<open>city\<close> and the
  coordinates are copied by the object spread as they are. \<open>ins_extra\<close> holds the additional
  numeric keys (the month columns) that the spread carries along, each a number or \<open>NaN\<close>
  (\<open>None\<close>). Counts and ids are JavaScript numbers in the integer range, modelled as unbounded
  \<open>int\<close> and \<open>nat\<close>; coordinates are opaque numbers that are only stored and compared
  with \<open>0\<close>.
\<close>

record InsertSalesData =
  ins_state :: string
  ins_city :: string
  ins_maker :: "string option"
  ins_rto :: "string option"
  ins_district :: "string option"
  ins_latitude :: real
  ins_longitude :: real
  ins_sales2022 :: "int option"
  ins_sales2023 :: "int option"
  ins_sales2024 :: "int option"
  ins_sales2025 :: "int option"
  ins_total :: "int option"
  ins_extra :: "(string \<times> int option) list"

record SalesData =
  sd_id :: nat
  sd_state :: string
  sd_city :: string
  sd_maker :: string
  sd_rto :: string
  sd_district :: string
  sd_latitude :: real
  sd_longitude :: real
  sd_sales2022 :: int
  sd_sales2023 :: int
  sd_sales2024 :: int
  sd_sales2025 :: int
  sd_total :: int
  sd_extra :: "(string \<times> int option) list"

record FilterOptions =
  fo_makers :: "string list"
  fo_rtos :: "string list"
  fo_states :: "string list"
  fo_districts :: "string list"

text \<open>
  A JavaScript \<open>Map\<close> iterates in insertion order, and \<open>set\<close> on a key that is already
  there replaces the value where it stands: an association list, \<open>Map_set\<close> writing in place
  or appending.
\<close>

type_synonym ('k, 'v) JsMap = "('k \<times> 'v) list"

fun Map_get :: "('k, 'v) JsMap \<Rightarrow> 'k \<Rightarrow> 'v option" where
  "Map_get [] k = None"
| "Map_get ((k', v) # m) k = (if k' = k then Some v else Map_get m k)"

fun Map_set :: "'k \<Rightarrow> 'v \<Rightarrow> ('k, 'v) JsMap \<Rightarrow> ('k, 'v) JsMap" where
  "Map_set k v [] = [(k, v)]"
| "Map_set k v ((k', v') # m) = (if k' = k then (k, v) # m else (k', v') # Map_set k v m)"

definition Map_values :: "('k, 'v) JsMap \<Rightarrow> 'v list" where
  "Map_values m = map snd m"

text \<open>
  The state of \<open>MemStorage\<close>. Its private array \<open>salesData\<close> is never read or written
  by any method and is left out.
\<close>

record MemStorage =
  salesDataMap :: "(nat, SalesData) JsMap"
  currentId :: nat
  filterOptionsCache :: "FilterOptions option"

definition new_MemStorage :: MemStorage where
  "new_MemStorage = \<lparr>salesDataMap = [], currentId = 1, filterOptionsCache = None\<rparr>"

text \<open>\<open>x || ''\<close> and \<open>x || 0\<close> on a field that may be absent.\<close>

definition or_empty :: "string option \<Rightarrow> string" where
  "or_empty x = (case x of None \<Rightarrow> [] | Some s \<Rightarrow> if s \<noteq> [] then s else [])"

definition or_zero :: "int option \<Rightarrow> int" where
  "or_zero x = (case x of None \<Rightarrow> 0 | Some n \<Rightarrow> if n \<noteq> 0 then n else 0)"

definition getAllSalesData :: "MemStorage \<Rightarrow> SalesData list" where
  "getAllSalesData st = Map_values (salesDataMap st)"

definition createSalesData :: "InsertSalesData \<Rightarrow> MemStorage \<Rightarrow> SalesData \<times> MemStorage" where
  "createSalesData insertData st =
     (let id' = currentId st;
          st1 = st\<lparr>currentId := currentId st + 1\<rparr>;
          data = \<lparr>sd_id = id',
                  sd_state = ins_state insertData,
                  sd_city = ins_city insertData,
                  sd_maker = or_empty (ins_maker insertData),
                  sd_rto = or_empty (ins_rto insertData),
                  sd_district = or_empty (ins_district insertData),
                  sd_latitude = ins_latitude insertData,
                  sd_longitude = ins_longitude insertData,
                  sd_sales2022 = or_zero (ins_sales2022 insertData),
                  sd_sales2023 = or_zero (ins_sales2023 insertData),
                  sd_sales2024 = or_zero (ins_sales2024 insertData),
                  sd_sales2025 = or_zero (ins_sales2025 insertData),
                  sd_total = or_zero (ins_total insertData),
                  sd_extra = ins_extra insertData\<rparr>
      in (data, st1\<lparr>salesDataMap := Map_set id' data (salesDataMap st1)\<rparr>))"

text \<open>
  \<open>createMultipleSalesData\<close>: the body of the \<open>batch.map\<close> callback is written out in the
  source a second time, so it is a definition of its own here; \<open>batch_map\<close> runs it over one
  slice from left to right, threading the store.
\<close>

definition batch_callback :: "InsertSalesData \<Rightarrow> MemStorage \<Rightarrow> SalesData \<times> MemStorage" where
  "batch_callback insertData st =
     (let id' = currentId st;
          st1 = st\<lparr>currentId := currentId st + 1\<rparr>;
          data = \<lparr>sd_id = id',
                  sd_state = ins_state insertData,
                  sd_city = ins_city insertData,
                  sd_maker = or_empty (ins_maker insertData),
                  sd_rto = or_empty (ins_rto insertData),
                  sd_district = or_empty (ins_district insertData),
                  sd_latitude = ins_latitude insertData,
                  sd_longitude = ins_longitude insertData,
                  sd_sales2022 = or_zero (ins_sales2022 insertData),
                  sd_sales2023 = or_zero (ins_sales2023 insertData),
                  sd_sales2024 = or_zero (ins_sales2024 insertData),
                  sd_sales2025 = or_zero (ins_sales2025 insertData),
                  sd_total = or_zero (ins_total insertData),
                  sd_extra = ins_extra insertData\<rparr>
      in (data, st1\<lparr>salesDataMap := Map_set id' data (salesDataMap st1)\<rparr>))"

fun batch_map :: "InsertSalesData list \<Rightarrow> MemStorage \<Rightarrow> SalesData list \<times> MemStorage" where
  "batch_map [] st = ([], st)"
| "batch_map (x # xs) st =
     (let (d, st1) = batch_callback x st;
          (ds, st2) = batch_map xs st1
      in (d # ds, st2))"

definition slice :: "nat \<Rightarrow> nat \<Rightarrow> 'a list \<Rightarrow> 'a list" where
  "slice i j xs = take (j - i) (drop i xs)"

definition batchSize :: "'a list \<Rightarrow> nat" where
  "batchSize insertDataArray = min 1000 (max 100 (length insertDataArray div 10))"

function createMultiple_loop ::
  "InsertSalesData list \<Rightarrow> nat \<Rightarrow> SalesData list \<Rightarrow> MemStorage \<Rightarrow> SalesData list \<times> MemStorage"
where
  "createMultiple_loop arr i results st =
     (if i < length arr then
        (let batch = slice i (i + batchSize arr) arr;
             (batchResults, st1) = batch_map batch st
         in createMultiple_loop arr (i + batchSize arr) (results @ batchResults) st1)
      else (results, st))"
  by pat_completeness auto
termination
  by (relation "measure (\<lambda>(arr, i, results, st). length arr - i)") (auto simp: batchSize_def)

declare createMultiple_loop.simps [simp del]

definition createMultipleSalesData ::
  "InsertSalesData list \<Rightarrow> MemStorage \<Rightarrow> SalesData list \<times> MemStorage" where
  "createMultipleSalesData insertDataArray st = createMultiple_loop insertDataArray 0 [] st"

definition clearSalesData :: "MemStorage \<Rightarrow> MemStorage" where
  "clearSalesData st = st\<lparr>salesDataMap := [], currentId := 1, filterOptionsCache := None\<rparr>"

definition updateSalesDataCoordinates :: "nat \<Rightarrow> real \<Rightarrow> real \<Rightarrow> MemStorage \<Rightarrow> MemStorage" where
  "updateSalesDataCoordinates id' latitude longitude st =
     (case Map_get (salesDataMap st) id' of
        Some data \<Rightarrow>
          st\<lparr>salesDataMap :=
               Map_set id' (data\<lparr>sd_latitude := latitude, sd_longitude := longitude\<rparr>)
                 (salesDataMap st)\<rparr>
      | None \<Rightarrow> st)"

text \<open>
  Repeated \<open>createSalesData\<close>, one call per input in input order: the behaviour the batch
  insert is compared with.
\<close>

fun insert_each :: "InsertSalesData list \<Rightarrow> MemStorage \<Rightarrow> SalesData list \<times> MemStorage" where
  "insert_each [] st = ([], st)"
| "insert_each (x # xs) st =
     (let (d, st1) = createSalesData x st;
          (ds, st2) = insert_each xs st1
      in (d # ds, st2))"


section \<open>Cell values and the JavaScript operations on them (routes)\<close>

text \<open>
  The spreadsheet decoder hands each row over as an object from column label to cell value;
  a cell is a string, a number or a boolean, and a column without a cell is \<open>undefined\<close>
  (\<open>None\<close>). Numeric cells are integers in the range where \<open>String(n)\<close> is the plain
  decimal numeral. A number that may be \<open>NaN\<close> is a \<open>JsNum\<close>, with \<open>None\<close> for \<open>NaN\<close>.
\<close>

datatype Cell = CStr string | CNum int | CBool bool

type_synonym Row = "string \<rightharpoonup> Cell"

type_synonym JsNum = "int option"

fun truthy :: "Cell \<Rightarrow> bool" where
  "truthy (CStr s) = (s \<noteq> [])"
| "truthy (CNum n) = (n \<noteq> 0)"
| "truthy (CBool b) = b"

text \<open>\<open>x || y\<close> where \<open>x\<close> is a property read that may be \<open>undefined\<close>.\<close>

definition or_else :: "Cell option \<Rightarrow> Cell \<Rightarrow> Cell" where
  "or_else x y = (case x of Some c \<Rightarrow> if truthy c then c else y | None \<Rightarrow> y)"

fun show_nat :: "nat \<Rightarrow> string" where
  "show_nat n =
     (if n < 10 then [''0123456789'' ! n]
      else show_nat (n div 10) @ [''0123456789'' ! (n mod 10)])"

declare show_nat.simps [simp del]

fun String :: "Cell \<Rightarrow> string" where
  "String (CStr s) = s"
| "String (CNum n) = (if n < 0 then CHR ''-'' # show_nat (nat (- n)) else show_nat (nat n))"
| "String (CBool b) = (if b then ''true'' else ''false'')"

text \<open>
  White space as \<open>trim\<close> and \<open>parseInt\<close> strip it, within the characters a \<open>char\<close> can
  hold: tab, line feed, vertical tab, form feed, carriage return and space.
\<close>

definition is_ws :: "char \<Rightarrow> bool" where
  "is_ws c = (c \<in> set [CHR 0x09, CHR 0x0A, CHR 0x0B, CHR 0x0C, CHR 0x0D, CHR '' ''])"

definition trim :: "string \<Rightarrow> string" where
  "trim s = rev (dropWhile is_ws (rev (dropWhile is_ws s)))"

definition toLowerCase :: "string \<Rightarrow> string" where
  "toLowerCase s =
     map (\<lambda>c. case map_of (zip ''ABCDEFGHIJKLMNOPQRSTUVWXYZ'' ''abcdefghijklmnopqrstuvwxyz'') c of
               Some l \<Rightarrow> l | None \<Rightarrow> c) s"

definition digit_value :: "char \<Rightarrow> nat option" where
  "digit_value c = map_of
     [(CHR ''0'', 0), (CHR ''1'', 1), (CHR ''2'', 2), (CHR ''3'', 3), (CHR ''4'', 4),
      (CHR ''5'', 5), (CHR ''6'', 6), (CHR ''7'', 7), (CHR ''8'', 8), (CHR ''9'', 9),
      (CHR ''a'', 10), (CHR ''b'', 11), (CHR ''c'', 12), (CHR ''d'', 13), (CHR ''e'', 14),
      (CHR ''f'', 15), (CHR ''A'', 10), (CHR ''B'', 11), (CHR ''C'', 12), (CHR ''D'', 13),
      (CHR ''E'', 14), (CHR ''F'', 15)] c"

definition radix_digit :: "nat \<Rightarrow> char \<Rightarrow> bool" where
  "radix_digit R c = (case digit_value c of Some d \<Rightarrow> d < R | None \<Rightarrow> False)"

definition digits_value :: "nat \<Rightarrow> string \<Rightarrow> nat" where
  "digits_value R Z =
     foldl (\<lambda>a c. a * R + (case digit_value c of Some d \<Rightarrow> d | None \<Rightarrow> 0)) 0 Z"

text \<open>
  \<open>parseInt\<close> with no radix: skip leading white space, read a sign, take radix 16 after a
  \<open>0x\<close> or \<open>0X\<close> prefix and radix 10 otherwise, and read the longest run of digits; no
  digit gives \<open>NaN\<close>. Its argument is converted with \<open>String\<close> first.
\<close>

definition parseInt_string :: "string \<Rightarrow> JsNum" where
  "parseInt_string inputString =
     (let S = dropWhile is_ws inputString;
          sign = (if take 1 S = ''-'' then - 1 else (1::int));
          S1 = (if take 1 S = ''-'' \<or> take 1 S = ''+'' then drop 1 S else S);
          R = (if take 2 S1 = ''0x'' \<or> take 2 S1 = ''0X'' then 16 else (10::nat));
          S2 = (if take 2 S1 = ''0x'' \<or> take 2 S1 = ''0X'' then drop 2 S1 else S1);
          Z = takeWhile (radix_digit R) S2
      in if Z = [] then None else Some (sign * int (digits_value R Z)))"

definition parseInt :: "Cell \<Rightarrow> JsNum" where
  "parseInt c = parseInt_string (String c)"

text \<open>\<open>a + b\<close> on numbers: \<open>NaN\<close> absorbs.\<close>

definition js_add :: "JsNum \<Rightarrow> JsNum \<Rightarrow> JsNum" where
  "js_add a b = (case (a, b) of (Some x, Some y) \<Rightarrow> Some (x + y) | _ \<Rightarrow> None)"

text \<open>\<open>a || b\<close> on numbers: \<open>NaN\<close> and \<open>0\<close> are falsy.\<close>

definition js_num_or :: "JsNum \<Rightarrow> JsNum \<Rightarrow> JsNum" where
  "js_num_or a b = (case a of Some x \<Rightarrow> if x \<noteq> 0 then Some x else b | None \<Rightarrow> b)"


section \<open>Spreadsheet normalizer (the row loop of processExcelInBackground)\<close>

definition possibleMakerColumns :: "string list" where
  "possibleMakerColumns =
     [''Maker'', ''maker'', ''MAKER'', ''Manufacturer'', ''manufacturer'', ''MANUFACTURER'',
      ''Company'', ''company'', ''COMPANY'']"

definition possibleRTOColumns :: "string list" where
  "possibleRTOColumns =
     [''RTO'', ''rto'', ''Rto'', ''RTO_Code'', ''rto_code'', ''RTO Code'', ''rto code'']"

definition months :: "string list" where
  "months = [''JAN'', ''FEB'', ''MAR'', ''APR'', ''MAY'', ''JUN'',
             ''JUL'', ''AUG'', ''SEP'', ''OCT'', ''NOV'', ''DEC'']"

text \<open>
  The probe loop: the variable starts as the empty string; the first column of the list that
  the row has a cell for sets it and ends the loop.
\<close>

fun probe :: "string list \<Rightarrow> Row \<Rightarrow> string" where
  "probe [] rowData = []"
| "probe (col # cols) rowData =
     (case rowData col of
        Some c \<Rightarrow> trim (String c)
      | None \<Rightarrow> probe cols rowData)"

definition month_value :: "Row \<Rightarrow> string \<Rightarrow> JsNum" where
  "month_value rowData m =
     parseInt (or_else (rowData m) (or_else (rowData (toLowerCase m)) (CStr ''0'')))"

text \<open>The object literal \<open>salesData\<close>, before validation: \<open>state\<close>, \<open>city\<close> and
  \<open>district\<close> are still whatever the cells held.\<close>

record RawSalesData =
  raw_state :: Cell
  raw_city :: Cell
  raw_maker :: string
  raw_rto :: string
  raw_district :: Cell
  raw_latitude :: real
  raw_longitude :: real
  raw_sales2022 :: JsNum
  raw_sales2023 :: JsNum
  raw_sales2024 :: JsNum
  raw_sales2025 :: JsNum
  raw_total :: JsNum

text \<open>
  Modelled from the spec: \<open>insertSalesDataSchema\<close> of \<open>@shared/schema\<close>, which is not among
  the sources. The spec has it validate field presence and type and skip the row on failure; its
  result type is \<open>InsertSalesData\<close>, whose text fields are strings and whose counts are numbers.
  So \<open>parse\<close> fails when \<open>state\<close>, \<open>city\<close> or \<open>district\<close> is not a string or a count is
  \<open>NaN\<close>, and otherwise returns the fields as they are. Whatever else the schema demands is
  the parameter \<open>constraints\<close>. Keys the schema does not name (the months) are dropped.
\<close>

definition insertSalesDataSchema_parse ::
  "(InsertSalesData \<Rightarrow> bool) \<Rightarrow> RawSalesData \<Rightarrow> InsertSalesData option" where
  "insertSalesDataSchema_parse constraints salesData =
     (case (raw_state salesData, raw_city salesData, raw_district salesData,
            raw_sales2022 salesData, raw_sales2023 salesData, raw_sales2024 salesData,
            raw_sales2025 salesData, raw_total salesData) of
        (CStr state, CStr city, CStr district, Some s22, Some s23, Some s24, Some s25, Some total') \<Rightarrow>
          (let validatedData =
             \<lparr>ins_state = state, ins_city = city,
              ins_maker = Some (raw_maker salesData), ins_rto = Some (raw_rto salesData),
              ins_district = Some district,
              ins_latitude = raw_latitude salesData, ins_longitude = raw_longitude salesData,
              ins_sales2022 = Some s22, ins_sales2023 = Some s23,
              ins_sales2024 = Some s24, ins_sales2025 = Some s25,
              ins_total = Some total', ins_extra = []\<rparr>
           in if constraints validatedData then Some validatedData else None)
      | _ \<Rightarrow> None)"

text \<open>The cells a row is read through, as the loop body names them.\<close>

definition row_year :: "Row \<Rightarrow> JsNum" where
  "row_year rowData =
     parseInt (or_else (rowData ''Year'') (or_else (rowData ''year'') (CStr ''0'')))"

definition row_state :: "Row \<Rightarrow> Cell" where
  "row_state rowData = or_else (rowData ''state'') (or_else (rowData ''State'') (CStr []))"

definition row_city :: "Row \<Rightarrow> Cell" where
  "row_city rowData = or_else (rowData ''city'') (or_else (rowData ''City'') (CStr []))"

definition row_district :: "Row \<Rightarrow> Cell" where
  "row_district rowData =
     or_else (rowData ''District'') (or_else (rowData ''district'') (CStr []))"

definition yearTotal :: "Row \<Rightarrow> JsNum" where
  "yearTotal rowData = foldl js_add (Some 0) (map (month_value rowData) months)"

definition explicit_total :: "Row \<Rightarrow> JsNum" where
  "explicit_total rowData =
     parseInt (or_else (rowData ''total'') (or_else (rowData ''Total'') (CStr ''0'')))"

text \<open>The object literal \<open>salesData\<close> that is handed to the schema.\<close>

definition salesData_of :: "Row \<Rightarrow> RawSalesData" where
  "salesData_of rowData =
     \<lparr>raw_state = row_state rowData, raw_city = row_city rowData,
      raw_maker = probe possibleMakerColumns rowData,
      raw_rto = probe possibleRTOColumns rowData,
      raw_district = row_district rowData, raw_latitude = 0, raw_longitude = 0,
      raw_sales2022 = (if row_year rowData = Some 2022 then yearTotal rowData else Some 0),
      raw_sales2023 = (if row_year rowData = Some 2023 then yearTotal rowData else Some 0),
      raw_sales2024 = (if row_year rowData = Some 2024 then yearTotal rowData else Some 0),
      raw_sales2025 = (if row_year rowData = Some 2025 then yearTotal rowData else Some 0),
      raw_total = js_num_or (explicit_total rowData) (yearTotal rowData)\<rparr>"

text \<open>
  One pass of the body of \<open>for (const row of chunk)\<close>: \<open>None\<close> is a row that is skipped,
  by \<open>continue\<close> or by the \<open>catch\<close> around a failed validation; \<open>Some\<close> is the record
  pushed on \<open>salesDataArray\<close>, the validated fields with the month values spread over them.
  The sets \<open>uniqueMakers\<close> and \<open>uniqueRTOs\<close> are only logged and are not modelled.
\<close>

definition normalize_row :: "(InsertSalesData \<Rightarrow> bool) \<Rightarrow> Row \<Rightarrow> InsertSalesData option" where
  "normalize_row constraints rowData =
     (let maker = probe possibleMakerColumns rowData;
          rto = probe possibleRTOColumns rowData;
          year = row_year rowData;
          state = row_state rowData;
          city = row_city rowData
      in if maker = [] \<or> rto = [] \<or> \<not> truthy state \<or> \<not> truthy city then None
         else if year \<notin> set [Some 2022, Some 2023, Some 2024, Some 2025] then None
         else
           (let monthValues = map (\<lambda>m. (m, month_value rowData m)) months
            in case insertSalesDataSchema_parse constraints (salesData_of rowData) of
                 None \<Rightarrow> None
               | Some validatedData \<Rightarrow> Some (validatedData\<lparr>ins_extra := monthValues\<rparr>)))"

fun process_rows ::
  "(InsertSalesData \<Rightarrow> bool) \<Rightarrow> Row list \<Rightarrow> InsertSalesData list \<Rightarrow> InsertSalesData list" where
  "process_rows constraints [] salesDataArray = salesDataArray"
| "process_rows constraints (row # chunk) salesDataArray =
     (case normalize_row constraints row of
        None \<Rightarrow> process_rows constraints chunk salesDataArray
      | Some d \<Rightarrow> process_rows constraints chunk (salesDataArray @ [d]))"


section \<open>Ingestion job (processExcelInBackground)\<close>

datatype JobState = Processing | Completed | Error

record UploadStatus =
  status :: JobState
  totalRows :: nat
  processedRows :: nat
  insertedRecords :: nat
  error_message :: "string option"
  startTime :: nat

text \<open>
  The process-wide state: the store, the job-status map and the geocoding cache.
  \<open>geocodeRequests\<close> is not a variable of the program: it lists the addresses of the external
  lookups issued so far, the program's \<open>fetch\<close> calls to the geocoding service, in the order
  they are made.
\<close>

record World =
  storage :: MemStorage
  uploadStatus :: "(string, UploadStatus) JsMap"
  geocodingCache :: "(string, real \<times> real) JsMap"
  geocodeRequests :: "string list"

text \<open>
  A write to the job's own entry, \<open>uploadStatus.get(uploadId)!\<close> followed by an assignment or a
  \<open>set\<close> of the spread entry. The entry is there from the first statement of the job on and
  nothing removes entries, so the read finds it; the other branch is never taken by a job.
\<close>

definition update_status :: "string \<Rightarrow> (UploadStatus \<Rightarrow> UploadStatus) \<Rightarrow> World \<Rightarrow> World" where
  "update_status uploadId f w =
     (case Map_get (uploadStatus w) uploadId of
        Some s \<Rightarrow> w\<lparr>uploadStatus := Map_set uploadId (f s) (uploadStatus w)\<rparr>
      | None \<Rightarrow> w)"

definition chunkSize :: "'a list \<Rightarrow> nat" where
  "chunkSize jsonData = min 2000 (max 500 (length jsonData div 20))"

text \<open>
  The chunk loop. It returns \<open>salesDataArray\<close> and the state after each chunk's progress
  update, which is where the job yields to other requests.
\<close>

function process_chunks ::
  "(InsertSalesData \<Rightarrow> bool) \<Rightarrow> Row list \<Rightarrow> string \<Rightarrow> nat \<Rightarrow> InsertSalesData list \<Rightarrow> World
     \<Rightarrow> InsertSalesData list \<times> World list"
where
  "process_chunks constraints jsonData uploadId i salesDataArray w =
     (if i < length jsonData then
        (let chunk = slice i (i + chunkSize jsonData) jsonData;
             salesDataArray1 = process_rows constraints chunk salesDataArray;
             w1 = update_status uploadId
                    (\<lambda>s. s\<lparr>processedRows := min (i + chunkSize jsonData) (length jsonData)\<rparr>) w;
             (result, ws) =
               process_chunks constraints jsonData uploadId (i + chunkSize jsonData) salesDataArray1 w1
         in (result, w1 # ws))
      else (salesDataArray, []))"
  by pat_completeness auto
termination
  by (relation "measure (\<lambda>(c, jsonData, u, i, a, w). length jsonData - i)")
    (auto simp: chunkSize_def)

declare process_chunks.simps [simp del]

definition no_valid_data :: string where
  "no_valid_data =
     ''No valid data found in the Excel file. Please check the format and required columns.''"

text \<open>
  The job, run on its own (requests and other jobs that interleave at its yield points are not
  part of the model). \<open>job_start\<close> is its first statement, which registers the job. The decoder is outside the core: its result is the input, \<open>Inr\<close> the rows
  of the first sheet, \<open>Inl\<close> a thrown value, with its message when it is an \<open>Error\<close>. The
  result is the sequence of states after each write to the status map or the store, in program
  order; the last one is the state the job ends in. The enrichment that a completed job starts
  without awaiting it is \<open>updateCoordinatesInBackground\<close> below.
\<close>

definition job_start :: "string \<Rightarrow> nat \<Rightarrow> World \<Rightarrow> World" where
  "job_start uploadId now w =
     w\<lparr>uploadStatus :=
         Map_set uploadId
           \<lparr>status = Processing, totalRows = 0, processedRows = 0, insertedRecords = 0,
            error_message = None, startTime = now\<rparr> (uploadStatus w)\<rparr>"

definition processExcelInBackground ::
  "(InsertSalesData \<Rightarrow> bool) \<Rightarrow> string option + Row list \<Rightarrow> string \<Rightarrow> nat \<Rightarrow> World \<Rightarrow> World list"
where
  "processExcelInBackground constraints decoded uploadId now w =
     (let w0 = job_start uploadId now w
      in case decoded of
           Inl thrown \<Rightarrow>
             [w0, update_status uploadId
                    (\<lambda>s. s\<lparr>status := Error,
                            error_message := Some (case thrown of Some message \<Rightarrow> message
                                                   | None \<Rightarrow> ''Failed to process Excel file'')\<rparr>) w0]
         | Inr jsonData \<Rightarrow>
             (let w1 = update_status uploadId (\<lambda>s. s\<lparr>totalRows := length jsonData\<rparr>) w0;
                  (salesDataArray, ws) = process_chunks constraints jsonData uploadId 0 [] w1;
                  w2 = last (w1 # ws)
              in if salesDataArray = [] then
                   [w0, w1] @ ws @
                   [update_status uploadId
                      (\<lambda>s. s\<lparr>status := Error, error_message := Some no_valid_data\<rparr>) w2]
                 else
                   (let w3 = w2\<lparr>storage := clearSalesData (storage w2)\<rparr>;
                        (insertedData, st) = createMultipleSalesData salesDataArray (storage w3);
                        w4 = w3\<lparr>storage := st\<rparr>;
                        w5 = update_status uploadId
                               (\<lambda>s. s\<lparr>status := Completed,
                                       insertedRecords := length insertedData,
                                       processedRows := length jsonData\<rparr>) w4
                    in [w0, w1] @ ws @ [w3, w4, w5])))"

text \<open>
  What a status poll of a job id reads (\<open>GET /api/upload-status/:uploadId\<close>): the entry of
  the status map, or not-found. The two derived fields of the response are left out.
\<close>

definition poll :: "string \<Rightarrow> World \<Rightarrow> UploadStatus option" where
  "poll uploadId w = Map_get (uploadStatus w) uploadId"

section \<open>Geocode enrichment (updateCoordinatesInBackground)\<close>

definition needsGeocode :: "SalesData \<Rightarrow> bool" where
  "needsGeocode item =
     (sd_latitude item = 0 \<and> sd_longitude item = 0 \<and> sd_state item \<noteq> [] \<and> sd_city item \<noteq> [])"

definition cacheKey :: "SalesData \<Rightarrow> string" where
  "cacheKey item = sd_city item @ '', '' @ sd_state item"

definition address :: "SalesData \<Rightarrow> string" where
  "address item = sd_city item @ '', '' @ sd_state item @ '', India''"

text \<open>
  The external service: the answer to the \<open>n\<close>-th lookup issued, for its address. \<open>Some\<close> is
  a response with status \<open>OK\<close> and a first result; \<open>None\<close> is any other response or a
  failed request, which the callback only logs.
\<close>

type_synonym Geocoder = "nat \<Rightarrow> string \<Rightarrow> (real \<times> real) option"

text \<open>
  \<open>Promise.all(batch.map(async (item) => ...))\<close>: \<open>map\<close> calls the callback on every item of
  the batch in turn, and each call runs up to its first \<open>await\<close> that suspends. The test
  \<open>geocodingCache.has\<close> followed by \<open>get\<close> is the case distinction on \<open>Map_get\<close>. On a cache hit
  that is the whole callback (\<open>updateSalesDataCoordinates\<close> has no \<open>await\<close> of its own, so
  the store is written during the call); on a miss the callback issues its \<open>fetch\<close> and
  suspends. \<open>start_callbacks\<close> is this first pass: it reads the cache as it is when the batch
  starts and returns the suspended callbacks with the number of their request. The rest of a
  suspended callback runs when its response is there: \<open>finish_callbacks\<close>, taking the
  responses in the order of the requests.
\<close>

fun start_callbacks :: "SalesData list \<Rightarrow> World \<Rightarrow> (SalesData \<times> nat) list \<times> World" where
  "start_callbacks [] w = ([], w)"
| "start_callbacks (item # batch) w =
     (case Map_get (geocodingCache w) (cacheKey item) of
        Some coords \<Rightarrow>
          start_callbacks batch
            (w\<lparr>storage := updateSalesDataCoordinates (sd_id item) (fst coords) (snd coords) (storage w)\<rparr>)
      | None \<Rightarrow>
          (let n = length (geocodeRequests w);
               w1 = w\<lparr>geocodeRequests := geocodeRequests w @ [address item]\<rparr>;
               (pending, w2) = start_callbacks batch w1
           in ((item, n) # pending, w2)))"

fun finish_callbacks :: "Geocoder \<Rightarrow> (SalesData \<times> nat) list \<Rightarrow> World \<Rightarrow> World" where
  "finish_callbacks geocode [] w = w"
| "finish_callbacks geocode ((item, n) # pending) w =
     (case geocode n (address item) of
        Some coords \<Rightarrow>
          finish_callbacks geocode pending
            (w\<lparr>geocodingCache := Map_set (cacheKey item) coords (geocodingCache w),
               storage := updateSalesDataCoordinates (sd_id item) (fst coords) (snd coords) (storage w)\<rparr>)
      | None \<Rightarrow> finish_callbacks geocode pending w)"

function geocode_batches :: "Geocoder \<Rightarrow> SalesData list \<Rightarrow> nat \<Rightarrow> World \<Rightarrow> World" where
  "geocode_batches geocode itemsNeedingGeocode i w =
     (if i < length itemsNeedingGeocode then
        (let batch = slice i (i + 10) itemsNeedingGeocode;
             (pending, w1) = start_callbacks batch w;
             w2 = finish_callbacks geocode pending w1
         in geocode_batches geocode itemsNeedingGeocode (i + 10) w2)
      else w)"
  by pat_completeness auto
termination
  by (relation "measure (\<lambda>(g, items, i, w). length items - i)") auto

declare geocode_batches.simps [simp del]

text \<open>\<open>apiKey\<close> says whether one of the two environment variables holds a key.\<close>

definition updateCoordinatesInBackground :: "bool \<Rightarrow> Geocoder \<Rightarrow> World \<Rightarrow> World" where
  "updateCoordinatesInBackground apiKey geocode w =
     (if \<not> apiKey then w
      else
        (let allData = getAllSalesData (storage w);
             itemsNeedingGeocode = filter needsGeocode allData
         in geocode_batches geocode itemsNeedingGeocode 0 w))"


section \<open>Cascading filters (POST /api/cascading-filters)\<close>

text \<open>The request body; a list that is absent takes the default \<open>[]\<close> of the destructuring.\<close>

record FilterSelection =
  sel_makers :: "string list option"
  sel_rtos :: "string list option"
  sel_states :: "string list option"
  sel_districts :: "string list option"

definition or_default :: "string list option \<Rightarrow> string list" where
  "or_default x = (case x of None \<Rightarrow> [] | Some xs \<Rightarrow> xs)"

text \<open>\<open>xs.length === 0 || xs.includes(v)\<close>\<close>

definition selected :: "string list \<Rightarrow> string \<Rightarrow> bool" where
  "selected xs v = (length xs = 0 \<or> v \<in> set xs)"

text \<open>A JavaScript \<open>Set\<close> of strings, in insertion order.\<close>

definition Set_add :: "string \<Rightarrow> string list \<Rightarrow> string list" where
  "Set_add v s = (if v \<in> set s then s else s @ [v])"

definition collect_options ::
  "string list \<Rightarrow> string list \<Rightarrow> string list \<Rightarrow> string list \<Rightarrow>
   string list \<times> string list \<times> string list \<times> string list \<Rightarrow> SalesData \<Rightarrow>
   string list \<times> string list \<times> string list \<times> string list" where
  "collect_options makers rtos states districts acc item =
     (case acc of (makerOptions, rtoOptions, stateOptions, districtOptions) \<Rightarrow>
        (if selected rtos (sd_rto item) \<and> selected states (sd_state item) \<and>
            selected districts (sd_district item)
         then Set_add (sd_maker item) makerOptions else makerOptions,
         if selected makers (sd_maker item) \<and> selected states (sd_state item) \<and>
            selected districts (sd_district item)
         then Set_add (sd_rto item) rtoOptions else rtoOptions,
         if selected makers (sd_maker item) \<and> selected rtos (sd_rto item) \<and>
            selected districts (sd_district item)
         then Set_add (sd_state item) stateOptions else stateOptions,
         if selected makers (sd_maker item) \<and> selected rtos (sd_rto item) \<and>
            selected states (sd_state item)
         then Set_add (sd_district item) districtOptions else districtOptions))"

text \<open>\<open>Array.from(s).filter(Boolean).sort()\<close>: the default sort compares strings by code unit.\<close>

definition sorted_options :: "string list \<Rightarrow> string list" where
  "sorted_options s = sort (filter (\<lambda>v. v \<noteq> []) s)"

definition cascading_filters :: "FilterSelection \<Rightarrow> MemStorage \<Rightarrow> SalesData list \<times> FilterOptions" where
  "cascading_filters body st =
     (let makers = or_default (sel_makers body);
          rtos = or_default (sel_rtos body);
          states = or_default (sel_states body);
          districts = or_default (sel_districts body);
          allData = getAllSalesData st;
          filteredData = filter (\<lambda>item.
             selected makers (sd_maker item) \<and> selected rtos (sd_rto item) \<and>
             selected states (sd_state item) \<and> selected districts (sd_district item)) allData;
          (makerOptions, rtoOptions, stateOptions, districtOptions) =
             foldl (collect_options makers rtos states districts) ([], [], [], []) allData;
          availableOptions =
             \<lparr>fo_makers = sorted_options makerOptions,
              fo_rtos = sorted_options rtoOptions,
              fo_states = sorted_options stateOptions,
              fo_districts = sorted_options districtOptions\<rparr>
      in (filteredData, availableOptions))"

text \<open>
  The filter engine as the specification words it: a record satisfies a dimension when the
  selection for that dimension is empty or contains the record's value.
\<close>

datatype Dimension = Makers | Rtos | States | Districts

fun field :: "Dimension \<Rightarrow> SalesData \<Rightarrow> string" where
  "field Makers r = sd_maker r"
| "field Rtos r = sd_rto r"
| "field States r = sd_state r"
| "field Districts r = sd_district r"

fun selection :: "Dimension \<Rightarrow> FilterSelection \<Rightarrow> string list" where
  "selection Makers body = or_default (sel_makers body)"
| "selection Rtos body = or_default (sel_rtos body)"
| "selection States body = or_default (sel_states body)"
| "selection Districts body = or_default (sel_districts body)"

fun options :: "Dimension \<Rightarrow> FilterOptions \<Rightarrow> string list" where
  "options Makers fo = fo_makers fo"
| "options Rtos fo = fo_rtos fo"
| "options States fo = fo_states fo"
| "options Districts fo = fo_districts fo"

definition satisfies :: "FilterSelection \<Rightarrow> Dimension \<Rightarrow> SalesData \<Rightarrow> bool" where
  "satisfies body d r = (selection d body = [] \<or> field d r \<in> set (selection d body))"

definition satisfies_all :: "FilterSelection \<Rightarrow> SalesData \<Rightarrow> bool" where
  "satisfies_all body r = list_all (\<lambda>d. satisfies body d r) [Makers, Rtos, States, Districts]"

definition satisfies_others :: "FilterSelection \<Rightarrow> Dimension \<Rightarrow> SalesData \<Rightarrow> bool" where
  "satisfies_others body d r =
     list_all (\<lambda>d'. satisfies body d' r) (filter (\<lambda>d'. d' \<noteq> d) [Makers, Rtos, States, Districts])"

text \<open>One of the four option sets of the scan on its own: the step that adds a record's value
  when the record passes the test.\<close>

definition add_if :: "(SalesData \<Rightarrow> bool) \<Rightarrow> (SalesData \<Rightarrow> string) \<Rightarrow> string list \<Rightarrow> SalesData \<Rightarrow> string list" where
  "add_if P f s item = (if P item then Set_add (f item) s else s)"

section \<open>Example data\<close>

definition example_pune :: InsertSalesData where
  "example_pune =
     \<lparr>ins_state = ''Maharashtra'', ins_city = ''Pune'', ins_maker = Some ''Acme'',
      ins_rto = Some ''MH12'', ins_district = Some ''Pune'', ins_latitude = 0, ins_longitude = 0,
      ins_sales2022 = Some 0, ins_sales2023 = Some 30, ins_sales2024 = Some 0,
      ins_sales2025 = Some 0, ins_total = Some 30, ins_extra = []\<rparr>"

definition example_nashik :: InsertSalesData where
  "example_nashik =
     \<lparr>ins_state = ''Maharashtra'', ins_city = ''Nashik'', ins_maker = Some ''Zenith'',
      ins_rto = None, ins_district = None, ins_latitude = 20, ins_longitude = 73,
      ins_sales2022 = None, ins_sales2023 = None, ins_sales2024 = Some 5,
      ins_sales2025 = None, ins_total = Some 5, ins_extra = []\<rparr>"

definition example_store :: MemStorage where
  "example_store = snd (insert_each [example_pune, example_nashik] new_MemStorage)"

text \<open>
  The row of the specification's example: year 2023, monthly values 10, 20, 0, ..., 0 and no
  explicit total; and rows that differ from it in one cell.
\<close>

definition example_row :: Row where
  "example_row =
     [''Maker'' \<mapsto> CStr ''Acme'', ''RTO'' \<mapsto> CStr ''MH12'', ''State'' \<mapsto> CStr ''Maharashtra'',
      ''City'' \<mapsto> CStr ''Pune'', ''Year'' \<mapsto> CNum 2023,
      ''JAN'' \<mapsto> CNum 10, ''FEB'' \<mapsto> CNum 20, ''MAR'' \<mapsto> CNum 0, ''APR'' \<mapsto> CNum 0,
      ''MAY'' \<mapsto> CNum 0, ''JUN'' \<mapsto> CNum 0, ''JUL'' \<mapsto> CNum 0, ''AUG'' \<mapsto> CNum 0,
      ''SEP'' \<mapsto> CNum 0, ''OCT'' \<mapsto> CNum 0, ''NOV'' \<mapsto> CNum 0, ''DEC'' \<mapsto> CNum 0]"

definition example_row_total :: Row where
  "example_row_total = example_row(''total'' \<mapsto> CNum 99)"

definition blank_maker_row :: Row where
  "blank_maker_row = example_row(''Maker'' \<mapsto> CStr ''  '', ''Manufacturer'' \<mapsto> CStr ''Acme'')"




definition year_2021_row :: Row where
  "year_2021_row = example_row(''Year'' \<mapsto> CNum 2021)"

text \<open>A schema that asks for nothing beyond the types of the fields.\<close>

definition types_only :: "InsertSalesData \<Rightarrow> bool" where
  "types_only validatedData = True"

text \<open>A process state around the example store, with no jobs and an empty geocoding cache.\<close>

definition example_world :: World where
  "example_world =
     \<lparr>storage = example_store, uploadStatus = [], geocodingCache = [], geocodeRequests = []\<rparr>"

text \<open>
  Two records for the same city and state, both at the sentinel coordinates, in a store with
  nothing else and an empty cache; and a service whose answer differs from request to request.
\<close>

definition twin_world :: World where
  "twin_world =
     \<lparr>storage = snd (insert_each [example_pune, example_pune] new_MemStorage),
      uploadStatus = [], geocodingCache = [], geocodeRequests = []\<rparr>"

definition drifting_geocoder :: Geocoder where
  "drifting_geocoder n a = Some (18 + real n, 73)"

text \<open>The selection of the specification's example: one maker chosen, nothing else.\<close>

definition acme_selection :: FilterSelection where
  "acme_selection =
     \<lparr>sel_makers = Some [''Acme''], sel_rtos = None, sel_states = Some [], sel_districts = None\<rparr>"

section \<open>The record store: batch insert and coordinate update\<close>

lemma batch_callback_eq: "batch_callback = createSalesData"
  by (intro ext) (simp add: batch_callback_def createSalesData_def)

lemma batch_map_eq: "batch_map xs st = insert_each xs st"
  by (induction xs arbitrary: st) (simp_all add: batch_callback_eq)

lemma insert_each_append:
  "insert_each (xs @ ys) st =
     (let (ds, st1) = insert_each xs st; (es, st2) = insert_each ys st1 in (ds @ es, st2))"
  by (induction xs arbitrary: st) (simp_all split: prod.splits)

lemma batchSize_pos: "0 < batchSize arr"
  by (simp add: batchSize_def)

lemma createMultiple_loop_eq:
  "createMultiple_loop arr i results st =
     (results @ fst (insert_each (drop i arr) st), snd (insert_each (drop i arr) st))"
proof (induction arr i results st rule: createMultiple_loop.induct)
  case (1 arr i results st)
  show ?case
  proof (cases "i < length arr")
    case False
    then show ?thesis by (simp add: createMultiple_loop.simps [of arr i])
  next
    case True
    define b where "b = batchSize arr"
    obtain ds st1 where bm: "insert_each (take b (drop i arr)) st = (ds, st1)"
      by (cases "insert_each (take b (drop i arr)) st")
    have split: "drop i arr = take b (drop i arr) @ drop (i + b) arr"
      by (metis append_take_drop_id drop_drop add.commute)
    have ie: "insert_each (drop i arr) st =
        (ds @ fst (insert_each (drop (i + b) arr) st1), snd (insert_each (drop (i + b) arr) st1))"
      by (subst split, subst insert_each_append) (simp add: bm split: prod.splits)
    have "createMultiple_loop arr i results st =
        createMultiple_loop arr (i + b) (results @ ds) st1"
      using True bm
      by (subst createMultiple_loop.simps) (simp add: slice_def batch_map_eq b_def)
    also have "\<dots> = ((results @ ds) @ fst (insert_each (drop (i + b) arr) st1),
                      snd (insert_each (drop (i + b) arr) st1))"
      using "1.IH" [OF True refl, of "(ds, st1)" ds st1] bm
      by (simp add: slice_def batch_map_eq b_def)
    finally show ?thesis by (simp add: ie)
  qed
qed

lemma createMultiple_refines: "createMultipleSalesData xs st = insert_each xs st"
  by (simp add: createMultipleSalesData_def createMultiple_loop_eq)

lemma Map_get_set: "Map_get (Map_set k v m) k' = (if k' = k then Some v else Map_get m k')"
  by (induction m) auto

lemma Map_get_None_iff: "Map_get m k = None \<longleftrightarrow> k \<notin> fst ` set m"
  by (induction m) (auto split: if_splits)

lemma Map_set_fresh: "k \<notin> fst ` set m \<Longrightarrow> Map_set k v m = m @ [(k, v)]"
  by (induction m) auto

lemma Map_set_keys: "k \<in> fst ` set m \<Longrightarrow> map fst (Map_set k v m) = map fst m"
  by (induction m) force+

lemma upt_shift: "[c ..< Suc (c + n)] = c # [Suc c ..< Suc (c + n)]"
  by (simp add: upt_conv_Cons del: upt_Suc)

lemma createSalesData_effect:
  assumes "createSalesData x st = (d, st1)"
  shows "sd_id d = currentId st" and "currentId st1 = Suc (currentId st)"
    and "salesDataMap st1 = Map_set (currentId st) d (salesDataMap st)"
    and "filterOptionsCache st1 = filterOptionsCache st"
  using assms by (auto simp: createSalesData_def Let_def)

lemma insert_each_ids:
  "insert_each xs st = (ds, st') \<Longrightarrow>
     length ds = length xs \<and> map sd_id ds = [currentId st ..< currentId st + length xs] \<and>
     currentId st' = currentId st + length xs \<and> filterOptionsCache st' = filterOptionsCache st"
proof (induction xs arbitrary: st ds st')
  case Nil
  then show ?case by simp
next
  case (Cons x xs)
  obtain d st1 where c: "createSalesData x st = (d, st1)" by (cases "createSalesData x st")
  obtain es st2 where r: "insert_each xs st1 = (es, st2)" by (cases "insert_each xs st1")
  from Cons.prems c r have eq: "ds = d # es" "st' = st2" by simp_all
  note e = createSalesData_effect [OF c]
  from Cons.IH [OF r] e show ?case
    by (simp add: eq upt_shift del: upt_Suc)
qed

lemma insert_each_lookup:
  "insert_each xs st = (ds, st') \<Longrightarrow>
     (\<forall>i<length xs. Map_get (salesDataMap st') (currentId st + i) = Some (ds ! i)) \<and>
     (\<forall>k. k < currentId st \<or> currentId st + length xs \<le> k \<longrightarrow>
          Map_get (salesDataMap st') k = Map_get (salesDataMap st) k)"
proof (induction xs arbitrary: st ds st')
  case Nil
  then show ?case by simp
next
  case (Cons x xs)
  obtain d st1 where c: "createSalesData x st = (d, st1)" by (cases "createSalesData x st")
  obtain es st2 where r: "insert_each xs st1 = (es, st2)" by (cases "insert_each xs st1")
  from Cons.prems c r have eq: "ds = d # es" "st' = st2" by simp_all
  note e = createSalesData_effect [OF c]
  note ih = Cons.IH [OF r]
  have old: "Map_get (salesDataMap st2) k = Map_get (salesDataMap st) k"
    if "k < currentId st \<or> currentId st + length (x # xs) \<le> k" for k
  proof -
    have "Map_get (salesDataMap st2) k = Map_get (salesDataMap st1) k"
      using ih that e(2) by auto
    also have "\<dots> = Map_get (salesDataMap st) k"
      using that by (auto simp: e(3) Map_get_set)
    finally show ?thesis .
  qed
  have new: "Map_get (salesDataMap st2) (currentId st + i) = Some ((d # es) ! i)"
    if "i < length (x # xs)" for i
  proof (cases i)
    case 0
    have "Map_get (salesDataMap st2) (currentId st) = Map_get (salesDataMap st1) (currentId st)"
      using ih e(2) by auto
    then show ?thesis using 0 by (simp add: e(3) Map_get_set)
  next
    case (Suc j)
    with that have "j < length xs" by simp
    with ih have "Map_get (salesDataMap st2) (currentId st1 + j) = Some (es ! j)" by blast
    then show ?thesis using Suc by (simp add: e(2))
  qed
  show ?case using old new by (simp add: eq)
qed

lemma insert_each_append_store:
  "insert_each xs st = (ds, st') \<Longrightarrow> \<forall>k\<in>fst ` set (salesDataMap st). k < currentId st \<Longrightarrow>
     salesDataMap st' = salesDataMap st @ zip [currentId st ..< currentId st + length xs] ds"
proof (induction xs arbitrary: st ds st')
  case Nil
  then show ?case by simp
next
  case (Cons x xs)
  obtain d st1 where c: "createSalesData x st = (d, st1)" by (cases "createSalesData x st")
  obtain es st2 where r: "insert_each xs st1 = (es, st2)" by (cases "insert_each xs st1")
  from Cons.prems(1) c r have eq: "ds = d # es" "st' = st2" by simp_all
  note e = createSalesData_effect [OF c]
  have fresh: "currentId st \<notin> fst ` set (salesDataMap st)"
    using Cons.prems(2) by auto
  have m1: "salesDataMap st1 = salesDataMap st @ [(currentId st, d)]"
    by (simp add: e(3) Map_set_fresh [OF fresh])
  have inv1: "\<forall>k\<in>fst ` set (salesDataMap st1). k < currentId st1"
    using Cons.prems(2) by (auto simp: m1 e(2) less_Suc_eq)
  from Cons.IH [OF r inv1] show ?case
    by (simp add: eq m1 e(2) upt_shift del: upt_Suc)
qed


lemma Map_set_nth:
  "j < length m \<Longrightarrow> fst (m ! j) \<noteq> k \<Longrightarrow> Map_set k v m ! j = m ! j"
proof (induction m arbitrary: j)
  case Nil
  then show ?case by simp
next
  case (Cons p m)
  then show ?case by (cases p; cases j) auto
qed

lemma Map_get_Some_key: "Map_get m k = Some v \<Longrightarrow> k \<in> fst ` set m"
  using Map_get_None_iff [of m k] by auto

text \<open>
  Claim C9. \<open>updateSalesDataCoordinates\<close> on an id that the store holds replaces that
  record by a copy with the new latitude and longitude and every other field as before; the
  records under all other ids, the order of the keys, the id counter and the filter-option cache
  stay as they are. On an id the store does not hold, the state is returned unchanged.
\<close>

theorem updateSalesDataCoordinates_frame:
  "(case Map_get (salesDataMap st) i of
      None \<Rightarrow> updateSalesDataCoordinates i lat lon st = st
    | Some d \<Rightarrow>
        (let st' = updateSalesDataCoordinates i lat lon st in
           Map_get (salesDataMap st') i = Some (d\<lparr>sd_latitude := lat, sd_longitude := lon\<rparr>) \<and>
           (\<forall>k. k \<noteq> i \<longrightarrow> Map_get (salesDataMap st') k = Map_get (salesDataMap st) k) \<and>
           map fst (salesDataMap st') = map fst (salesDataMap st) \<and>
           (\<forall>j<length (salesDataMap st).
               fst (salesDataMap st ! j) \<noteq> i \<longrightarrow> salesDataMap st' ! j = salesDataMap st ! j) \<and>
           currentId st' = currentId st \<and>
           filterOptionsCache st' = filterOptionsCache st))"
proof (cases "Map_get (salesDataMap st) i")
  case None
  then show ?thesis by (simp add: updateSalesDataCoordinates_def)
next
  case (Some d)
  then have "i \<in> fst ` set (salesDataMap st)" by (rule Map_get_Some_key)
  then show ?thesis
    using Some
    by (simp add: updateSalesDataCoordinates_def Map_get_set Map_set_keys Map_set_nth)
qed

lemma example_store_eval:
  "salesDataMap example_store =
     [(1, fst (createSalesData example_pune new_MemStorage)),
      (2, fst (createSalesData example_nashik (new_MemStorage\<lparr>currentId := 2\<rparr>)))]"
  "currentId example_store = 3"
  by (simp_all add: example_store_def createSalesData_def new_MemStorage_def Let_def)

text \<open>The frame property on the example store, at an id that is there and one that is not.\<close>

theorem updateSalesDataCoordinates_frame_witness:
  "Map_get (salesDataMap (updateSalesDataCoordinates 1 18 73 example_store)) 1 =
     Some (fst (createSalesData example_pune new_MemStorage)\<lparr>sd_latitude := 18, sd_longitude := 73\<rparr>) \<and>
   Map_get (salesDataMap (updateSalesDataCoordinates 1 18 73 example_store)) 2 =
     Map_get (salesDataMap example_store) 2 \<and>
   updateSalesDataCoordinates 7 18 73 example_store = example_store"
  using updateSalesDataCoordinates_frame [where st = example_store and i = 1 and lat = 18 and lon = 73]
    updateSalesDataCoordinates_frame [where st = example_store and i = 7 and lat = 18 and lon = 73]
  by (simp add: example_store_eval Let_def)

text \<open>
  Claim C5. For a list of \<open>N\<close> inputs and a store whose counter is \<open>c\<close>,
  \<open>createMultipleSalesData\<close> returns the same records and leaves the same store as calling
  \<open>createSalesData\<close> on each input in order, whatever the chunk size. The \<open>N\<close> results
  carry the ids \<open>c, c+1, ..., c+N-1\<close> in input order, the counter ends at \<open>c+N\<close>, each
  result is stored under its id, every other id keeps its record, and when all ids in the store
  are below the counter (as they are in every store the program builds) the results are appended
  to the store in input order.
\<close>

theorem createMultipleSalesData_sequential:
  assumes "createMultipleSalesData xs st = (results, st')"
  shows "insert_each xs st = (results, st') \<and>
     length results = length xs \<and>
     map sd_id results = [currentId st ..< currentId st + length xs] \<and>
     currentId st' = currentId st + length xs \<and>
     (\<forall>i<length xs. Map_get (salesDataMap st') (currentId st + i) = Some (results ! i)) \<and>
     (\<forall>k. k < currentId st \<or> currentId st + length xs \<le> k \<longrightarrow>
          Map_get (salesDataMap st') k = Map_get (salesDataMap st) k) \<and>
     ((\<forall>k\<in>fst ` set (salesDataMap st). k < currentId st) \<longrightarrow>
        salesDataMap st' =
          salesDataMap st @ zip [currentId st ..< currentId st + length xs] results)"
proof -
  from assms have ie: "insert_each xs st = (results, st')"
    by (simp add: createMultiple_refines)
  show ?thesis
    using ie insert_each_ids [OF ie] insert_each_lookup [OF ie] insert_each_append_store [OF ie]
    by simp
qed

text \<open>A batch of two inputs on the example store, whose counter is 3.\<close>

theorem createMultipleSalesData_sequential_witness:
  "createMultipleSalesData [example_pune, example_nashik] example_store =
     insert_each [example_pune, example_nashik] example_store \<and>
   map sd_id (fst (createMultipleSalesData [example_pune, example_nashik] example_store)) = [3, 4] \<and>
   map fst (salesDataMap (snd (createMultipleSalesData [example_pune, example_nashik] example_store)))
     = [1, 2, 3, 4]"
proof -
  obtain results st' where
    r: "createMultipleSalesData [example_pune, example_nashik] example_store = (results, st')"
    by (cases "createMultipleSalesData [example_pune, example_nashik] example_store")
  have len: "length results = 2"
    using createMultipleSalesData_sequential [OF r] by simp
  have keys: "\<forall>k\<in>fst ` set (salesDataMap example_store). k < currentId example_store"
    by (simp add: example_store_eval)
  have "salesDataMap st' = salesDataMap example_store @ zip [3 ..< 5] results"
    using createMultipleSalesData_sequential [OF r] keys by (simp add: example_store_eval)
  moreover have "[3 ..< 5] = [3, 4::nat]" by (simp add: upt_rec)
  ultimately have "map fst (salesDataMap st') = [1, 2, 3, 4]"
    using len by (cases results; cases "tl results") (auto simp: example_store_eval)
  moreover have "map sd_id results = [3, 4]"
    using createMultipleSalesData_sequential [OF r] \<open>[3 ..< 5] = [3, 4::nat]\<close>
    by (simp add: example_store_eval)
  ultimately show ?thesis
    using createMultipleSalesData_sequential [OF r] r by simp
qed

section \<open>Reading numbers: parseInt on the decimal numeral of an integer\<close>

lemma digit_char_cases:
  assumes "d < 10"
  shows "digit_value (''0123456789'' ! d) = Some d \<and> \<not> is_ws (''0123456789'' ! d)
     \<and> ''0123456789'' ! d \<noteq> CHR ''-'' \<and> ''0123456789'' ! d \<noteq> CHR ''+''
     \<and> ''0123456789'' ! d \<noteq> CHR ''x'' \<and> ''0123456789'' ! d \<noteq> CHR ''X''"
proof -
  from assms have "d \<in> {0, 1, 2, 3, 4, 5, 6, 7, 8, 9}" by auto
  then show ?thesis
    by (elim insertE emptyE) (simp_all add: digit_value_def is_ws_def)
qed

lemma show_nat_nonempty: "show_nat n \<noteq> []"
  by (subst show_nat.simps) simp

lemma show_nat_digits: "c \<in> set (show_nat n) \<Longrightarrow> \<exists>d<10. c = ''0123456789'' ! d"
proof (induction n rule: show_nat.induct)
  case (1 n)
  show ?case
  proof (cases "n < 10")
    case True
    with "1.prems" show ?thesis by (subst (asm) show_nat.simps) auto
  next
    case False
    from "1.prems" have "c \<in> set (show_nat (n div 10)) \<or> c = ''0123456789'' ! (n mod 10)"
      using False by (subst (asm) show_nat.simps) auto
    then show ?thesis
    proof
      assume "c \<in> set (show_nat (n div 10))"
      with "1.IH" [OF False] show ?thesis by blast
    next
      assume "c = ''0123456789'' ! (n mod 10)"
      moreover have "n mod 10 < 10" by simp
      ultimately show ?thesis by blast
    qed
  qed
qed

lemma show_nat_radix: "c \<in> set (show_nat n) \<Longrightarrow> radix_digit 10 c"
  using show_nat_digits [of c n] digit_char_cases by (auto simp: radix_digit_def)

lemma show_nat_chars:
  "c \<in> set (show_nat n) \<Longrightarrow> \<not> is_ws c \<and> c \<noteq> CHR ''-'' \<and> c \<noteq> CHR ''+'' \<and> c \<noteq> CHR ''x'' \<and> c \<noteq> CHR ''X''"
  using show_nat_digits [of c n] digit_char_cases by auto

lemma digits_value_snoc:
  "digits_value R (Z @ [c]) = digits_value R Z * R + (case digit_value c of Some d \<Rightarrow> d | None \<Rightarrow> 0)"
  by (simp add: digits_value_def)

lemma digits_value_show_nat: "digits_value 10 (show_nat n) = n"
proof (induction n rule: show_nat.induct)
  case (1 n)
  show ?case
  proof (cases "n < 10")
    case True
    then show ?thesis
      using digit_char_cases [OF True]
      by (subst show_nat.simps) (simp add: digits_value_def)
  next
    case False
    have m: "n mod 10 < 10" by simp
    show ?thesis
      using "1.IH" [OF False] digit_char_cases [OF m] False
      by (subst show_nat.simps) (simp add: digits_value_snoc)
  qed
qed

lemma show_nat_no_hex:
  "take 2 (show_nat n) \<noteq> ''0x''" "take 2 (show_nat n) \<noteq> ''0X''"
proof -
  have a: "d \<noteq> CHR ''x'' \<and> d \<noteq> CHR ''X''" if "d \<in> set (take 2 (show_nat n))" for d
    using show_nat_chars [of d n] in_set_takeD [OF that] by simp
  show "take 2 (show_nat n) \<noteq> ''0x''"
  proof
    assume "take 2 (show_nat n) = ''0x''"
    then have "CHR ''x'' \<in> set (take 2 (show_nat n))" by simp
    with a show False by blast
  qed
  show "take 2 (show_nat n) \<noteq> ''0X''"
  proof
    assume "take 2 (show_nat n) = ''0X''"
    then have "CHR ''X'' \<in> set (take 2 (show_nat n))" by simp
    with a show False by blast
  qed
qed

lemma parseInt_string_show_nat: "parseInt_string (show_nat n) = Some (int n)"
proof -
  obtain c cs where s: "show_nat n = c # cs"
    using show_nat_nonempty [of n] by (cases "show_nat n") auto
  have c: "\<not> is_ws c" "c \<noteq> CHR ''-''" "c \<noteq> CHR ''+''"
    using show_nat_chars [of c n] by (simp_all add: s)
  note nox = show_nat_no_hex [of n]
  have tw: "takeWhile (radix_digit 10) (show_nat n) = show_nat n"
    using show_nat_radix by (simp add: takeWhile_eq_all_conv)
  have dw: "dropWhile is_ws (show_nat n) = show_nat n"
    using c by (simp add: s)
  have t1: "take 1 (show_nat n) \<noteq> ''-''" "take 1 (show_nat n) \<noteq> ''+''"
    using c by (simp_all add: s)
  show ?thesis
    unfolding parseInt_string_def dw Let_def
    using t1 nox show_nat_nonempty [of n] by (simp add: tw digits_value_show_nat)
qed

lemma parseInt_string_neg: "0 < n \<Longrightarrow> parseInt_string (CHR ''-'' # show_nat n) = Some (- int n)"
proof -
  note nox = show_nat_no_hex [of n]
  have tw: "takeWhile (radix_digit 10) (show_nat n) = show_nat n"
    using show_nat_radix by (simp add: takeWhile_eq_all_conv)
  have dw: "dropWhile is_ws (CHR ''-'' # show_nat n) = CHR ''-'' # show_nat n"
    by (simp add: is_ws_def)
  show ?thesis
    unfolding parseInt_string_def dw Let_def
    using nox show_nat_nonempty [of n] by (simp add: tw digits_value_show_nat)
qed

lemma parseInt_CNum: "parseInt (CNum n) = Some n"
  using parseInt_string_show_nat [of "nat n"] parseInt_string_neg [of "nat (- n)"]
  by (simp add: parseInt_def)

lemma parseInt_zero_literal: "parseInt (CStr ''0'') = Some 0"
  by (simp add: parseInt_def parseInt_string_def is_ws_def radix_digit_def digit_value_def digits_value_def)

section \<open>The normalizer: what a row becomes\<close>

lemma or_else_simps:
  "or_else None y = y"
  "or_else (Some c) y = (if truthy c then c else y)"
  by (simp_all add: or_else_def)








lemma parse_SomeI:
  assumes "raw_state raw = CStr st" "raw_city raw = CStr ci" "raw_district raw = CStr di"
    "raw_sales2022 raw = Some a" "raw_sales2023 raw = Some b" "raw_sales2024 raw = Some c"
    "raw_sales2025 raw = Some e" "raw_total raw = Some t"
    "v = \<lparr>ins_state = st, ins_city = ci,
              ins_maker = Some (raw_maker raw), ins_rto = Some (raw_rto raw),
              ins_district = Some di,
              ins_latitude = raw_latitude raw, ins_longitude = raw_longitude raw,
              ins_sales2022 = Some a, ins_sales2023 = Some b,
              ins_sales2024 = Some c, ins_sales2025 = Some e,
              ins_total = Some t, ins_extra = []\<rparr>"
    "constraints v"
  shows "insertSalesDataSchema_parse constraints raw = Some v"
  using assms by (simp add: insertSalesDataSchema_parse_def)


lemma foldl_js_add_None: "foldl js_add None xs = None"
  by (induction xs) (simp_all add: js_add_def)







lemmas row_eval = normalize_row_def possibleMakerColumns_def possibleRTOColumns_def months_def
  month_value_def insertSalesDataSchema_parse_def or_else_simps js_add_def js_num_or_def
  toLowerCase_def trim_def is_ws_def parseInt_CNum parseInt_zero_literal Let_def
  row_year_def row_state_def row_city_def row_district_def yearTotal_def explicit_total_def
  salesData_of_def types_only_def









section \<open>The ingestion job: accepted rows, progress and the store\<close>

lemma process_rows_eq:
  "process_rows constraints chunk acc = acc @ List.map_filter (normalize_row constraints) chunk"
  by (induction chunk arbitrary: acc) (simp_all add: List.map_filter_simps split: option.splits)

lemma map_filter_append:
  "List.map_filter f (xs @ ys) = List.map_filter f xs @ List.map_filter f ys"
  by (simp add: List.map_filter_def)

lemma chunkSize_pos: "0 < chunkSize jsonData"
  by (simp add: chunkSize_def)

lemma process_chunks_result:
  "fst (process_chunks constraints jsonData uploadId i acc w) =
     acc @ List.map_filter (normalize_row constraints) (drop i jsonData)"
proof (induction constraints jsonData uploadId i acc w rule: process_chunks.induct)
  case (1 constraints jsonData uploadId i acc w)
  show ?case
  proof (cases "i < length jsonData")
    case False
    then show ?thesis
      by (subst process_chunks.simps) (simp add: List.map_filter_simps)
  next
    case True
    define b where "b = chunkSize jsonData"
    have split: "drop i jsonData = take b (drop i jsonData) @ drop (i + b) jsonData"
      by (metis append_take_drop_id drop_drop add.commute)
    have mf: "List.map_filter (normalize_row constraints) (drop i jsonData) =
        List.map_filter (normalize_row constraints) (take b (drop i jsonData)) @
        List.map_filter (normalize_row constraints) (drop (i + b) jsonData)"
      by (subst split) (simp only: map_filter_append)
    show ?thesis
      using True "1.IH" [OF True refl refl refl]
      by (subst process_chunks.simps)
        (simp add: Let_def split_beta process_rows_eq slice_def mf b_def)
  qed
qed

lemma update_status_frame:
  "storage (update_status u f w) = storage w"
  "geocodingCache (update_status u f w) = geocodingCache w"
  "geocodeRequests (update_status u f w) = geocodeRequests w"
  by (simp_all add: update_status_def split: option.splits)

lemma poll_update_status:
  "poll u (update_status u f w) = map_option f (poll u w)"
  by (simp add: poll_def update_status_def Map_get_set split: option.splits)

lemma sorted_le_last: "sorted xs \<Longrightarrow> x \<in> set xs \<Longrightarrow> x \<le> last xs"
  by (induction xs) (auto split: if_splits)

lemma process_chunks_trace:
  assumes "poll u w = Some s"
  shows "\<exists>ss. map (poll u) (snd (process_chunks C rows u i acc w)) = map Some ss \<and>
      sorted (map processedRows ss) \<and>
      (\<forall>s'\<in>set ss. processedRows s' \<le> length rows \<and> status s' = status s \<and>
          error_message s' = error_message s \<and> totalRows s' = totalRows s \<and>
          min (i + chunkSize rows) (length rows) \<le> processedRows s') \<and>
      (\<forall>w'\<in>set (snd (process_chunks C rows u i acc w)). storage w' = storage w)"
  using assms
proof (induction C rows u i acc w arbitrary: s rule: process_chunks.induct)
  case (1 C rows u i acc w)
  show ?case
  proof (cases "i < length rows")
    case False
    then show ?thesis by (subst (1 2) process_chunks.simps) simp
  next
    case True
    define b where "b = chunkSize rows"
    define s1 where "s1 = s\<lparr>processedRows := min (i + b) (length rows)\<rparr>"
    define w1 where "w1 = update_status u (\<lambda>s. s\<lparr>processedRows := min (i + b) (length rows)\<rparr>) w"
    define acc1 where "acc1 = process_rows C (slice i (i + b) rows) acc"
    have p1: "poll u w1 = Some s1"
      by (simp add: w1_def s1_def poll_update_status "1.prems")
    have unfold: "snd (process_chunks C rows u i acc w) =
        w1 # snd (process_chunks C rows u (i + b) acc1 w1)"
      using True
      by (subst process_chunks.simps) (simp add: Let_def split_beta b_def w1_def acc1_def)
    from "1.IH" [OF True refl refl refl, of s1] p1
    obtain ss where ss:
      "map (poll u) (snd (process_chunks C rows u (i + b) acc1 w1)) = map Some ss"
      "sorted (map processedRows ss)"
      "\<forall>s'\<in>set ss. processedRows s' \<le> length rows \<and> status s' = status s1 \<and>
          error_message s' = error_message s1 \<and> totalRows s' = totalRows s1 \<and>
          min (i + b + b) (length rows) \<le> processedRows s'"
      "\<forall>w'\<in>set (snd (process_chunks C rows u (i + b) acc1 w1)). storage w' = storage w1"
      unfolding b_def w1_def acc1_def by blast
    have st1: "storage w1 = storage w" by (simp add: w1_def update_status_frame)
    have "map (poll u) (snd (process_chunks C rows u i acc w)) = map Some (s1 # ss)"
      by (simp add: unfold p1 ss(1))
    moreover have "sorted (map processedRows (s1 # ss))"
      using ss(2,3) by (auto simp: s1_def)
    moreover have "\<forall>s'\<in>set (s1 # ss). processedRows s' \<le> length rows \<and> status s' = status s \<and>
          error_message s' = error_message s \<and> totalRows s' = totalRows s \<and>
          min (i + chunkSize rows) (length rows) \<le> processedRows s'"
      using ss(3) by (auto simp: s1_def b_def)
    moreover have "\<forall>w'\<in>set (snd (process_chunks C rows u i acc w)). storage w' = storage w"
      using ss(4) st1 by (simp add: unfold)
    ultimately show ?thesis by blast
  qed
qed

lemma job_start_poll:
  "poll u (job_start u now w) = Some \<lparr>status = Processing, totalRows = 0, processedRows = 0,
       insertedRecords = 0, error_message = None, startTime = now\<rparr>"
  "storage (job_start u now w) = storage w"
  by (simp_all add: job_start_def poll_def Map_get_set)

lemma job_trace_rows:
  "processExcelInBackground C (Inr rows) u now w =
     (let w0 = job_start u now w;
          w1 = update_status u (\<lambda>s. s\<lparr>totalRows := length rows\<rparr>) w0;
          ws = snd (process_chunks C rows u 0 [] w1);
          accepted = List.map_filter (normalize_row C) rows;
          w2 = last (w1 # ws)
      in if accepted = [] then
           [w0, w1] @ ws @
           [update_status u (\<lambda>s. s\<lparr>status := Error, error_message := Some no_valid_data\<rparr>) w2]
         else
           (let w3 = w2\<lparr>storage := clearSalesData (storage w2)\<rparr>;
                r = insert_each accepted (storage w3);
                w4 = w3\<lparr>storage := snd r\<rparr>;
                w5 = update_status u (\<lambda>s. s\<lparr>status := Completed,
                         insertedRecords := length (fst r), processedRows := length rows\<rparr>) w4
            in [w0, w1] @ ws @ [w3, w4, w5]))"
proof -
  have r: "fst (process_chunks C rows u 0 [] w1) = List.map_filter (normalize_row C) rows" for w1
    by (simp add: process_chunks_result)
  show ?thesis
    unfolding processExcelInBackground_def
    by (simp add: Let_def split_beta r createMultiple_refines del: last.simps)
qed

lemma job_chunks:
  fixes C rows u now w
  defines "w1 \<equiv> update_status u (\<lambda>s. s\<lparr>totalRows := length rows\<rparr>) (job_start u now w)"
  defines "ws \<equiv> snd (process_chunks C rows u 0 [] w1)"
  defines "s1 \<equiv> \<lparr>status = Processing, totalRows = length rows, processedRows = 0,
       insertedRecords = 0, error_message = None, startTime = now\<rparr>"
  shows "\<exists>ss. map (poll u) ws = map Some ss \<and> sorted (map processedRows ss) \<and>
      (\<forall>s'\<in>set ss. processedRows s' \<le> length rows \<and> status s' = Processing \<and>
           error_message s' = None) \<and>
      (\<forall>w'\<in>set ws. storage w' = storage w) \<and>
      poll u w1 = Some s1 \<and> storage w1 = storage w \<and>
      poll u (last (w1 # ws)) = Some (last (s1 # ss)) \<and> storage (last (w1 # ws)) = storage w"
proof -
  have p1: "poll u w1 = Some s1"
    by (simp add: w1_def s1_def poll_update_status job_start_poll)
  have st1: "storage w1 = storage w"
    by (simp add: w1_def update_status_frame job_start_poll)
  from process_chunks_trace [OF p1, of C rows 0 "[]"] obtain ss where ss:
    "map (poll u) ws = map Some ss" "sorted (map processedRows ss)"
    "\<forall>s'\<in>set ss. processedRows s' \<le> length rows \<and> status s' = status s1 \<and>
          error_message s' = error_message s1 \<and> totalRows s' = totalRows s1 \<and>
          min (0 + chunkSize rows) (length rows) \<le> processedRows s'"
    "\<forall>w'\<in>set ws. storage w' = storage w1"
    unfolding ws_def by blast
  have "map (poll u) (w1 # ws) = map Some (s1 # ss)" by (simp add: p1 ss(1))
  then have "poll u (last (w1 # ws)) = Some (last (s1 # ss))"
    by (metis last_map list.distinct(1) list.map_disc_iff)
  moreover have "storage (last (w1 # ws)) = storage w"
    using ss(4) st1 by (cases "ws = []") auto
  ultimately show ?thesis
    using ss st1 p1 by (intro exI [of _ ss]) (auto simp: s1_def)
qed

lemma sorted_snoc_last: "sorted xs \<Longrightarrow> sorted (xs @ [last ((0::nat) # xs)])"
  by (cases "xs = []") (auto simp: sorted_append sorted_le_last)

text \<open>
  Claim C8. Along the states that one ingestion job writes, from the registration of the job
  through every chunk update to its last state, a poll of the job's id always finds the entry,
  and the \<open>processedRows\<close> values read are in non-decreasing order (so any successive polls,
  which see a subsequence of these states, read non-decreasing values). The first state is
  \<open>processing\<close> with 0 rows and the last is \<open>completed\<close> or \<open>error\<close>.
\<close>

theorem processedRows_monotone:
  "\<exists>ss. map (poll u) (processExcelInBackground C decoded u now w) = map Some ss \<and>
      sorted (map processedRows ss) \<and> ss \<noteq> [] \<and>
      status (hd ss) = Processing \<and> processedRows (hd ss) = 0 \<and>
      status (last ss) \<in> {Completed, Error}"
proof (cases decoded)
  case (Inl thrown)
  define s0 where "s0 = \<lparr>status = Processing, totalRows = 0, processedRows = 0,
       insertedRecords = 0, error_message = None, startTime = now\<rparr>"
  define e where "e = s0\<lparr>status := Error,
      error_message := Some (case thrown of Some message \<Rightarrow> message
                             | None \<Rightarrow> ''Failed to process Excel file'')\<rparr>"
  have "map (poll u) (processExcelInBackground C decoded u now w) = map Some [s0, e]"
    by (simp add: Inl processExcelInBackground_def Let_def poll_update_status job_start_poll s0_def e_def)
  then show ?thesis
    by (intro exI [of _ "[s0, e]"]) (simp add: s0_def e_def)
next
  case (Inr rows)
  define w0 where "w0 = job_start u now w"
  define w1 where "w1 = update_status u (\<lambda>s. s\<lparr>totalRows := length rows\<rparr>) w0"
  define ws where "ws = snd (process_chunks C rows u 0 [] w1)"
  define w2 where "w2 = last (w1 # ws)"
  define s0 where "s0 = \<lparr>status = Processing, totalRows = 0, processedRows = 0,
       insertedRecords = 0, error_message = None, startTime = now\<rparr>"
  define s1 where "s1 = \<lparr>status = Processing, totalRows = length rows, processedRows = 0,
       insertedRecords = 0, error_message = None, startTime = now\<rparr>"
  from job_chunks [of u C rows now w] obtain ss where ss:
    "map (poll u) ws = map Some ss" "sorted (map processedRows ss)"
    "\<forall>s'\<in>set ss. processedRows s' \<le> length rows \<and> status s' = Processing \<and>
           error_message s' = None"
    "poll u w1 = Some s1" "poll u w2 = Some (last (s1 # ss))"
    unfolding ws_def w1_def w0_def s1_def w2_def by blast
  define s2 where "s2 = last (s1 # ss)"
  have p0: "poll u w0 = Some s0" by (simp add: w0_def s0_def job_start_poll)
  have pr2: "processedRows s2 = last (0 # map processedRows ss)"
    by (cases "ss = []") (simp_all add: s2_def s1_def last_map)
  have le2: "processedRows s2 \<le> length rows"
    using ss(3) by (cases "ss = []") (simp_all add: s2_def s1_def)
  show ?thesis
  proof (cases "List.map_filter (normalize_row C) rows = []")
    case True
    define e where "e = s2\<lparr>status := Error, error_message := Some no_valid_data\<rparr>"
    have tr: "processExcelInBackground C decoded u now w =
        [w0, w1] @ ws @ [update_status u (\<lambda>s. s\<lparr>status := Error, error_message := Some no_valid_data\<rparr>) w2]"
      using True
      by (simp add: Inr job_trace_rows Let_def w0_def w1_def ws_def w2_def del: last.simps)
    have "map (poll u) (processExcelInBackground C decoded u now w) = map Some ([s0, s1] @ ss @ [e])"
      by (simp add: tr p0 ss(1,4,5) poll_update_status e_def s2_def del: last.simps)
    moreover have "sorted (map processedRows ([s0, s1] @ ss @ [e]))"
      using sorted_snoc_last [OF ss(2)] by (simp add: s0_def s1_def e_def pr2 del: last.simps)
    ultimately show ?thesis
      by (intro exI [of _ "[s0, s1] @ ss @ [e]"]) (simp add: s0_def e_def)
  next
    case False
    define r where "r = insert_each (List.map_filter (normalize_row C) rows) (clearSalesData (storage w2))"
    define w3 where "w3 = w2\<lparr>storage := clearSalesData (storage w2)\<rparr>"
    define w4 where "w4 = w3\<lparr>storage := snd r\<rparr>"
    define c where "c = s2\<lparr>status := Completed, insertedRecords := length (fst r),
        processedRows := length rows\<rparr>"
    have tr: "processExcelInBackground C decoded u now w =
        [w0, w1] @ ws @ [w3, w4, update_status u (\<lambda>s. s\<lparr>status := Completed,
            insertedRecords := length (fst r), processedRows := length rows\<rparr>) w4]"
      using False
      by (simp add: Inr job_trace_rows Let_def w0_def w1_def ws_def w2_def w3_def w4_def r_def
          del: last.simps)
    have p34: "poll u w3 = Some s2" "poll u w4 = Some s2"
      using ss(5) by (simp_all add: w3_def w4_def poll_def s2_def)
    have "map (poll u) (processExcelInBackground C decoded u now w) =
        map Some ([s0, s1] @ ss @ [s2, s2, c])"
      by (simp add: tr p0 ss(1,4) p34 poll_update_status c_def del: last.simps)
    moreover have "sorted (map processedRows ([s0, s1] @ ss @ [s2, s2, c]))"
      using sorted_snoc_last [OF ss(2)] le2 ss(3)
      by (simp add: s0_def s1_def c_def pr2 sorted_append del: last.simps)
    ultimately show ?thesis
      by (intro exI [of _ "[s0, s1] @ ss @ [s2, s2, c]"]) (simp add: s0_def c_def)
  qed
qed

lemma map_filter_Nil_iff: "List.map_filter f xs = [] \<longleftrightarrow> (\<forall>x\<in>set xs. f x = None)"
  by (induction xs) (auto simp: List.map_filter_simps split: option.splits)


lemma last_two_snoc: "last (a # b # xs @ [x]) = x"
  by simp


text \<open>
  Claim C6. When no row of the upload is accepted by the normalizer (an empty sheet included),
  the job ends in the \<open>error\<close> state with the message that begins "No valid data found",
  and the store is the same in every state the job passes through as before the job: neither
  the clear nor the batch insert happens.
\<close>

theorem no_valid_rows_error:
  assumes "\<forall>row\<in>set rows. normalize_row C row = None"
  shows "(\<exists>s. poll u (last (processExcelInBackground C (Inr rows) u now w)) = Some s \<and>
            status s = Error \<and> error_message s = Some no_valid_data) \<and>
         (\<forall>w'\<in>set (processExcelInBackground C (Inr rows) u now w). storage w' = storage w) \<and>
         take 19 no_valid_data = ''No valid data found''"
proof -
  define w0 where "w0 = job_start u now w"
  define w1 where "w1 = update_status u (\<lambda>s. s\<lparr>totalRows := length rows\<rparr>) w0"
  define ws where "ws = snd (process_chunks C rows u 0 [] w1)"
  define w2 where "w2 = last (w1 # ws)"
  define s1 where "s1 = \<lparr>status = Processing, totalRows = length rows, processedRows = 0,
       insertedRecords = 0, error_message = None, startTime = now\<rparr>"
  from assms have empty: "List.map_filter (normalize_row C) rows = []"
    by (simp add: map_filter_Nil_iff)
  from job_chunks [of u C rows now w] obtain ss where ss:
    "map (poll u) ws = map Some ss"
    "\<forall>w'\<in>set ws. storage w' = storage w" "storage w1 = storage w"
    "poll u w2 = Some (last (s1 # ss))" "storage w2 = storage w"
    unfolding ws_def w1_def w0_def s1_def w2_def by blast
  have tr: "processExcelInBackground C (Inr rows) u now w =
      [w0, w1] @ ws @ [update_status u (\<lambda>s. s\<lparr>status := Error, error_message := Some no_valid_data\<rparr>) w2]"
    using empty
    by (simp add: job_trace_rows Let_def w0_def w1_def ws_def w2_def del: last.simps)
  have "poll u (last (processExcelInBackground C (Inr rows) u now w)) =
      Some ((last (s1 # ss))\<lparr>status := Error, error_message := Some no_valid_data\<rparr>)"
    by (simp add: tr poll_update_status ss(4) last_two_snoc del: last.simps)
  moreover have "\<forall>w'\<in>set (processExcelInBackground C (Inr rows) u now w). storage w' = storage w"
    using ss(2,3,5) by (auto simp: tr update_status_frame w0_def job_start_poll simp del: last.simps)
  ultimately show ?thesis by (simp add: no_valid_data_def)
qed

lemma example_skips:
  "normalize_row types_only year_2021_row = None"
  "normalize_row types_only blank_maker_row = None"
  by (simp_all add: row_eval year_2021_row_def blank_maker_row_def example_row_def)

text \<open>An upload of two rows, one with year 2021 and one with a blank maker.\<close>

theorem no_valid_rows_error_witness:
  "normalize_row types_only year_2021_row = None \<and>
   normalize_row types_only blank_maker_row = None \<and>
   (\<exists>s. poll ''upload_1'' (last (processExcelInBackground types_only
            (Inr [year_2021_row, blank_maker_row]) ''upload_1'' 0 example_world)) = Some s \<and>
        status s = Error \<and> error_message s = Some no_valid_data) \<and>
   storage (last (processExcelInBackground types_only
            (Inr [year_2021_row, blank_maker_row]) ''upload_1'' 0 example_world)) = example_store"
proof -
  have h: "\<forall>row\<in>set [year_2021_row, blank_maker_row]. normalize_row types_only row = None"
    by (simp add: example_skips)
  have ne: "processExcelInBackground types_only
      (Inr [year_2021_row, blank_maker_row]) ''upload_1'' 0 example_world \<noteq> []"
    by (simp add: job_trace_rows Let_def del: last.simps)
  show ?thesis
    using no_valid_rows_error [OF h, of "''upload_1''" 0 example_world] last_in_set [OF ne]
    by (auto simp: example_world_def example_skips simp del: last.simps)
qed

text \<open>The same for an upload of three rows into the example state.\<close>

theorem processedRows_monotone_witness:
  "\<exists>ss. map (poll ''upload_1'') (processExcelInBackground types_only
            (Inr [example_row, year_2021_row, example_row_total]) ''upload_1'' 0 example_world)
          = map Some ss \<and>
      sorted (map processedRows ss) \<and> ss \<noteq> [] \<and>
      status (hd ss) = Processing \<and> processedRows (hd ss) = 0 \<and>
      status (last ss) \<in> {Completed, Error}"
  by (rule processedRows_monotone)


lemma insert_each_length: "length (fst (insert_each xs st)) = length xs"
  using insert_each_ids [of xs st] by (cases "insert_each xs st") simp






section \<open>Enrichment: what a run may change\<close>

















lemmas enrich_eval = updateCoordinatesInBackground_def getAllSalesData_def Map_values_def
  needsGeocode_def geocode_batches.simps [of _ _ 0] geocode_batches.simps [of _ _ 10]
  slice_def cacheKey_def address_def updateSalesDataCoordinates_def drifting_geocoder_def
  createSalesData_def new_MemStorage_def Let_def example_pune_def example_nashik_def

text \<open>
  Claim C2 does not hold of the code. Two records for Pune, Maharashtra at the sentinel are in
  the same batch of ten; both callbacks read the cache before either response has been cached,
  so one run issues two lookups for the pair, and each record is written with the coordinates of
  its own response: with a service whose answers differ, the two records end with different
  coordinates.
\<close>

theorem duplicate_lookups_in_one_batch:
  "map (\<lambda>d. (sd_id d, sd_city d, sd_state d, sd_latitude d, sd_longitude d))
       (getAllSalesData (storage twin_world)) =
     [(1, ''Pune'', ''Maharashtra'', 0, 0), (2, ''Pune'', ''Maharashtra'', 0, 0)] \<and>
   geocodeRequests (updateCoordinatesInBackground True drifting_geocoder twin_world) =
     [''Pune, Maharashtra, India'', ''Pune, Maharashtra, India''] \<and>
   map (\<lambda>d. (sd_id d, sd_latitude d, sd_longitude d))
       (getAllSalesData (storage (updateCoordinatesInBackground True drifting_geocoder twin_world))) =
     [(1, 18, 73), (2, 19, 73)]"
  by (simp add: twin_world_def enrich_eval)


section \<open>Cascading filters against the specification\<close>

lemma foldl_add_if:
  "distinct s \<Longrightarrow>
     distinct (foldl (add_if P f) s xs) \<and>
     set (foldl (add_if P f) s xs) = set s \<union> f ` {r \<in> set xs. P r}"
  by (induction xs arbitrary: s) (auto simp: add_if_def Set_add_def)

lemma foldl_collect_options:
  "foldl (collect_options makers rtos states districts) (a, b, c, e) xs =
     (foldl (add_if (\<lambda>item. selected rtos (sd_rto item) \<and> selected states (sd_state item) \<and>
                       selected districts (sd_district item)) sd_maker) a xs,
      foldl (add_if (\<lambda>item. selected makers (sd_maker item) \<and> selected states (sd_state item) \<and>
                       selected districts (sd_district item)) sd_rto) b xs,
      foldl (add_if (\<lambda>item. selected makers (sd_maker item) \<and> selected rtos (sd_rto item) \<and>
                       selected districts (sd_district item)) sd_state) c xs,
      foldl (add_if (\<lambda>item. selected makers (sd_maker item) \<and> selected rtos (sd_rto item) \<and>
                       selected states (sd_state item)) sd_district) e xs)"
  by (induction xs arbitrary: a b c e) (simp_all add: collect_options_def add_if_def)

lemma sorted_options_props:
  "distinct s \<Longrightarrow> distinct (sorted_options s) \<and> sorted (sorted_options s) \<and>
     set (sorted_options s) = {v \<in> set s. v \<noteq> []}"
  by (auto simp: sorted_options_def)

lemma selected_satisfies:
  "selected (selection d body) (field d r) = satisfies body d r"
  by (simp add: selected_def satisfies_def)

text \<open>
  Claim C1. For every store and every selection (each of the four lists possibly empty or
  absent), \<open>filteredData\<close> is the stored records, in store order, that satisfy all four
  dimensions, a dimension being satisfied when its list is empty or contains the record's value;
  and for each dimension the option list is sorted, has no duplicates, and holds exactly the
  non-empty values of that dimension's field over the records that satisfy the other three
  dimensions.
\<close>

theorem cascading_filters_spec:
  assumes "cascading_filters body st = (filteredData, availableOptions)"
  shows "filteredData = filter (satisfies_all body) (getAllSalesData st) \<and>
     (\<forall>dim. distinct (options dim availableOptions) \<and> sorted (options dim availableOptions) \<and>
        set (options dim availableOptions) =
          {v. v \<noteq> [] \<and> (\<exists>r\<in>set (getAllSalesData st). satisfies_others body dim r \<and> field dim r = v)})"
proof -
  define makers where "makers = or_default (sel_makers body)"
  define rtos where "rtos = or_default (sel_rtos body)"
  define states where "states = or_default (sel_states body)"
  define districts where "districts = or_default (sel_districts body)"
  define allData where "allData = getAllSalesData st"
  note defs = makers_def rtos_def states_def districts_def allData_def
  have sat: "satisfies body Makers r = selected makers (sd_maker r)"
    "satisfies body Rtos r = selected rtos (sd_rto r)"
    "satisfies body States r = selected states (sd_state r)"
    "satisfies body Districts r = selected districts (sd_district r)" for r
    by (simp_all add: satisfies_def selected_def defs)
  have fd: "filteredData = filter (satisfies_all body) allData"
    using assms
    by (auto simp: cascading_filters_def Let_def split_beta satisfies_all_def sat defs [symmetric]
        intro: filter_cong)
  have opts: "availableOptions =
      \<lparr>fo_makers = sorted_options (foldl (add_if (\<lambda>item. selected rtos (sd_rto item) \<and>
            selected states (sd_state item) \<and> selected districts (sd_district item)) sd_maker) [] allData),
       fo_rtos = sorted_options (foldl (add_if (\<lambda>item. selected makers (sd_maker item) \<and>
            selected states (sd_state item) \<and> selected districts (sd_district item)) sd_rto) [] allData),
       fo_states = sorted_options (foldl (add_if (\<lambda>item. selected makers (sd_maker item) \<and>
            selected rtos (sd_rto item) \<and> selected districts (sd_district item)) sd_state) [] allData),
       fo_districts = sorted_options (foldl (add_if (\<lambda>item. selected makers (sd_maker item) \<and>
            selected rtos (sd_rto item) \<and> selected states (sd_state item)) sd_district) [] allData)\<rparr>"
    using assms
    by (simp add: cascading_filters_def Let_def foldl_collect_options defs [symmetric])
  have dim: "distinct (options dim availableOptions) \<and> sorted (options dim availableOptions) \<and>
        set (options dim availableOptions) =
          {v. v \<noteq> [] \<and> (\<exists>r\<in>set allData. satisfies_others body dim r \<and> field dim r = v)}" for dim
  proof (cases dim)
    case Makers
    show ?thesis
      using foldl_add_if [of "[]" _ sd_maker allData]
      by (auto simp: Makers opts sorted_options_props satisfies_others_def sat)
  next
    case Rtos
    show ?thesis
      using foldl_add_if [of "[]" _ sd_rto allData]
      by (auto simp: Rtos opts sorted_options_props satisfies_others_def sat)
  next
    case States
    show ?thesis
      using foldl_add_if [of "[]" _ sd_state allData]
      by (auto simp: States opts sorted_options_props satisfies_others_def sat)
  next
    case Districts
    show ?thesis
      using foldl_add_if [of "[]" _ sd_district allData]
      by (auto simp: Districts opts sorted_options_props satisfies_others_def sat)
  qed
  show ?thesis using fd dim by (simp add: allData_def)
qed

lemma example_records:
  "getAllSalesData example_store =
     [fst (createSalesData example_pune new_MemStorage),
      fst (createSalesData example_nashik (new_MemStorage\<lparr>currentId := 2\<rparr>))]"
  by (simp add: getAllSalesData_def Map_values_def example_store_eval)

text \<open>
  The example of the specification: with the maker Acme selected on a store of one Acme and one
  Zenith record, only the Acme record is returned, the maker options still list both makers, and
  the other option lists come from the Acme record alone.
\<close>

theorem cascading_filters_spec_witness:
  "map sd_maker (fst (cascading_filters acme_selection example_store)) = [''Acme''] \<and>
   fo_makers (snd (cascading_filters acme_selection example_store)) = [''Acme'', ''Zenith''] \<and>
   fo_rtos (snd (cascading_filters acme_selection example_store)) = [''MH12''] \<and>
   fo_states (snd (cascading_filters acme_selection example_store)) = [''Maharashtra''] \<and>
   fo_districts (snd (cascading_filters acme_selection example_store)) = [''Pune'']"
proof -
  obtain fd ao where c: "cascading_filters acme_selection example_store = (fd, ao)"
    by (cases "cascading_filters acme_selection example_store")
  note T = cascading_filters_spec [OF c]
  from T have "fd = filter (satisfies_all acme_selection) (getAllSalesData example_store)"
    by blast
  then have fd: "map sd_maker fd = [''Acme'']"
    by (simp add: example_records satisfies_all_def satisfies_def acme_selection_def or_default_def
        createSalesData_def Let_def example_pune_def example_nashik_def or_empty_def)
  have ao: "ao = \<lparr>fo_makers = [''Acme'', ''Zenith''], fo_rtos = [''MH12''],
      fo_states = [''Maharashtra''], fo_districts = [''Pune'']\<rparr>"
    using c
    by (simp add: cascading_filters_def example_records acme_selection_def or_default_def
        createSalesData_def Let_def example_pune_def example_nashik_def or_empty_def
        collect_options_def selected_def Set_add_def sorted_options_def new_MemStorage_def)
  show ?thesis using fd ao by (simp add: c)
qed

end
